theory Spec2Isabelle
  imports Main "HOL-Library.Sublist"
begin

section \<open>JavaScript values used by the plugin\<close>

text \<open>
  The plugin (\<^verbatim>\<open>src/index.ts\<close>) is a Vite plugin written in TypeScript. Its strings are
  modelled as \<^typ>\<open>string\<close>, \<^verbatim>\<open>undefined\<close>/\<^verbatim>\<open>null\<close> as \<^const>\<open>None\<close>, thrown
  exceptions as the left summand of a sum type.
\<close>

datatype error =
    TypeError
  | ENOENT
  | ENOTDIR
  | EISDIR
  | EEXIST
  | Error string

text \<open>The value of \<^verbatim>\<open>server.host\<close>: \<^verbatim>\<open>string | boolean | undefined\<close>.\<close>

datatype host_val = HostUndefined | HostBool bool | HostStr string

text \<open>JavaScript truthiness of such a value: the empty string, \<^verbatim>\<open>false\<close> and
  \<^verbatim>\<open>undefined\<close> are falsy.\<close>

fun truthy :: "host_val \<Rightarrow> bool" where
  "truthy HostUndefined = False"
| "truthy (HostBool b) = b"
| "truthy (HostStr s) = (s \<noteq> [])"

text \<open>\<^verbatim>\<open>a || b\<close>.\<close>

definition js_or :: "host_val \<Rightarrow> host_val \<Rightarrow> host_val" where
  "js_or a b = (if truthy a then a else b)"

text \<open>Decimal rendering of a non-negative integer, as a template literal renders a port.\<close>

definition digit_char :: "nat \<Rightarrow> char" where
  "digit_char d = ''0123456789abcdef'' ! d"

fun string_of_nat :: "nat \<Rightarrow> string" where
  "string_of_nat n =
     (if n < 10 then [digit_char n]
      else string_of_nat (n div 10) @ [digit_char (n mod 10)])"

declare string_of_nat.simps [simp del]

text \<open>\<^verbatim>\<open>`${v}`\<close> for a host value.\<close>

fun to_string :: "host_val \<Rightarrow> string" where
  "to_string HostUndefined = ''undefined''"
| "to_string (HostBool b) = (if b then ''true'' else ''false'')"
| "to_string (HostStr s) = s"

section \<open>Node's \<^verbatim>\<open>path\<close> module (POSIX)\<close>

text \<open>
  \<^verbatim>\<open>path.resolve\<close>, \<^verbatim>\<open>path.join\<close> and \<^verbatim>\<open>path.dirname\<close> belong to the Node runtime, not to
  the repository; they are modelled after their implementation in \<^verbatim>\<open>lib/path.js\<close>
  (the \<^verbatim>\<open>posix\<close> variant). A path is split at \<^verbatim>\<open>/\<close>; empty segments and \<^verbatim>\<open>.\<close> are
  dropped, \<^verbatim>\<open>..\<close> removes the segment before it.
\<close>

primrec split_on :: "char \<Rightarrow> string \<Rightarrow> string list" where
  "split_on c [] = [[]]"
| "split_on c (x # xs) =
     (case split_on c xs of
        [] \<Rightarrow> [[x]]
      | r # rs \<Rightarrow> (if x = c then [] # r # rs else (x # r) # rs))"

primrec join_with :: "string \<Rightarrow> string list \<Rightarrow> string" where
  "join_with sep [] = []"
| "join_with sep (s # ss) = (if ss = [] then s else s @ sep @ join_with sep ss)"

text \<open>\<^verbatim>\<open>normalizeString\<close> on segments; the accumulator holds the kept segments, last first.\<close>

fun normalize_segs :: "bool \<Rightarrow> string list \<Rightarrow> string list \<Rightarrow> string list" where
  "normalize_segs up acc [] = rev acc"
| "normalize_segs up acc (s # ss) =
     (if s = [] \<or> s = ''.'' then normalize_segs up acc ss
      else if s = ''..'' then
        (if acc \<noteq> [] \<and> hd acc \<noteq> ''..'' then normalize_segs up (tl acc) ss
         else if up then normalize_segs up (''..'' # acc) ss
         else normalize_segs up acc ss)
      else normalize_segs up (s # acc) ss)"

definition normalizeString :: "string \<Rightarrow> bool \<Rightarrow> string" where
  "normalizeString p allowAboveRoot =
     join_with ''/'' (normalize_segs allowAboveRoot [] (split_on CHR ''/'' p))"

definition isAbsolute :: "string \<Rightarrow> bool" where
  "isAbsolute p = (p \<noteq> [] \<and> hd p = CHR ''/'')"

text \<open>The loop of \<^verbatim>\<open>path.resolve\<close>: arguments from right to left, then the working
  directory, until an absolute one has been prepended; empty arguments are skipped.\<close>

fun resolve_loop :: "string list \<Rightarrow> string \<Rightarrow> string \<times> bool" where
  "resolve_loop [] acc = (acc, False)"
| "resolve_loop (p # ps) acc =
     (if p = [] then resolve_loop ps acc
      else if isAbsolute p then (p @ ''/'' @ acc, True)
      else resolve_loop ps (p @ ''/'' @ acc))"

definition path_resolve :: "string \<Rightarrow> string list \<Rightarrow> string" where
  "path_resolve cwd args =
     (case resolve_loop (rev args @ [cwd]) [] of
        (resolvedPath, resolvedAbsolute) \<Rightarrow>
          (let n = normalizeString resolvedPath (\<not> resolvedAbsolute)
           in if resolvedAbsolute then CHR ''/'' # n
              else if n \<noteq> [] then n else ''.''))"

definition path_normalize :: "string \<Rightarrow> string" where
  "path_normalize p =
     (if p = [] then ''.''
      else
        (let isAbs = isAbsolute p;
             trailingSeparator = (last p = CHR ''/'');
             n = normalizeString p (\<not> isAbs)
         in if n = [] then (if isAbs then ''/'' else if trailingSeparator then ''./'' else ''.'')
            else (if isAbs then ''/'' else []) @ n @ (if trailingSeparator then ''/'' else [])))"

definition path_join :: "string list \<Rightarrow> string" where
  "path_join args =
     (let parts = filter (\<lambda>a. a \<noteq> []) args
      in if parts = [] then ''.'' else path_normalize (join_with ''/'' parts))"

text \<open>\<^verbatim>\<open>path.dirname\<close>: the scan from the end skips trailing separators, then the last
  segment, and cuts at the separator found (never at index 0).\<close>

definition dirname :: "string \<Rightarrow> string" where
  "dirname p =
     (case p of
        [] \<Rightarrow> ''.''
      | c # rest \<Rightarrow>
          (case dropWhile (\<lambda>x. x \<noteq> CHR ''/'') (dropWhile (\<lambda>x. x = CHR ''/'') (rev rest)) of
             [] \<Rightarrow> (if c = CHR ''/'' then ''/'' else ''.'')
           | _ # r \<Rightarrow> (if c = CHR ''/'' \<and> r = [] then ''//'' else c # rev r)))"

section \<open>The file system\<close>

text \<open>
  Node's \<^verbatim>\<open>fs\<close> module, restricted to the four calls of the plugin. An entry is named by
  the segments of its absolute path; the root directory always exists. Every call either
  returns the new file system or the error code Node throws. The plugin hands these calls
  absolute, normalised paths only (\<^verbatim>\<open>path.resolve\<close> and \<^verbatim>\<open>path.join\<close> of an absolute
  working directory); relative paths and trailing separators are not modelled.
\<close>

datatype node = File string | Dir

type_synonym filesystem = "string list \<rightharpoonup> node"

definition fs_key :: "string \<Rightarrow> string list" where
  "fs_key p = filter (\<lambda>s. s \<noteq> []) (split_on CHR ''/'' p)"

text \<open>The directories strictly above an entry, outermost first (the root left out).\<close>

definition ancestors :: "string list \<Rightarrow> string list list" where
  "ancestors k = map (\<lambda>i. take i k) [1..<length k]"

text \<open>Path resolution by the operating system: the directories above the entry are
  visited from the root; the first one that is missing fails with \<^verbatim>\<open>ENOENT\<close>, the first
  one that is a regular file with \<^verbatim>\<open>ENOTDIR\<close>.\<close>

fun walk :: "filesystem \<Rightarrow> string list list \<Rightarrow> error option" where
  "walk fs [] = None"
| "walk fs (q # qs) =
     (case fs q of
        Some Dir \<Rightarrow> walk fs qs
      | Some (File _) \<Rightarrow> Some ENOTDIR
      | None \<Rightarrow> Some ENOENT)"

definition lookup :: "filesystem \<Rightarrow> string list \<Rightarrow> node option" where
  "lookup fs k = (if k = [] then Some Dir else fs k)"

text \<open>\<^verbatim>\<open>lstat\<close>: the error of the resolution, or the entry found (\<^const>\<open>None\<close> when the
  directories exist and the last segment is missing).\<close>

definition stat :: "filesystem \<Rightarrow> string list \<Rightarrow> error + node option" where
  "stat fs k = (case walk fs (ancestors k) of Some e \<Rightarrow> Inl e | None \<Rightarrow> Inr (lookup fs k))"

text \<open>\<^verbatim>\<open>fs.existsSync(path)\<close> is true when the path resolves to an entry of any kind.\<close>

definition existsSync :: "filesystem \<Rightarrow> string \<Rightarrow> bool" where
  "existsSync fs p = (case stat fs (fs_key p) of Inr (Some n) \<Rightarrow> True | _ \<Rightarrow> False)"

text \<open>\<^verbatim>\<open>fs.mkdirSync(dir, { recursive: true })\<close>: every missing directory on the way is
  created, an existing directory is accepted, a regular file in the way is an error.\<close>

fun mkdirs :: "filesystem \<Rightarrow> string list \<Rightarrow> string list \<Rightarrow> error + filesystem" where
  "mkdirs fs pre [] = Inr fs"
| "mkdirs fs pre (s # ss) =
     (case fs (pre @ [s]) of
        Some (File _) \<Rightarrow> Inl (if ss = [] then EEXIST else ENOTDIR)
      | Some Dir \<Rightarrow> mkdirs fs (pre @ [s]) ss
      | None \<Rightarrow> mkdirs (fs(pre @ [s] \<mapsto> Dir)) (pre @ [s]) ss)"

definition mkdirSync_recursive :: "filesystem \<Rightarrow> string \<Rightarrow> error + filesystem" where
  "mkdirSync_recursive fs p = mkdirs fs [] (fs_key p)"

text \<open>\<^verbatim>\<open>fs.writeFileSync(path, data)\<close>: the directories above the path must exist and the
  path must not name a directory; an existing file is overwritten.\<close>

definition writeFileSync :: "filesystem \<Rightarrow> string \<Rightarrow> string \<Rightarrow> error + filesystem" where
  "writeFileSync fs p data =
     (let k = fs_key p
      in case stat fs k of
           Inl e \<Rightarrow> Inl e
         | Inr (Some Dir) \<Rightarrow> Inl EISDIR
         | Inr _ \<Rightarrow> Inr (fs(k \<mapsto> File data)))"

text \<open>\<^verbatim>\<open>fs.rmSync(path, { force: true })\<close>: \<^verbatim>\<open>force\<close> suppresses \<^verbatim>\<open>ENOENT\<close> only, so a
  missing path is ignored and a regular file in the directory part of the path still
  fails with \<^verbatim>\<open>ENOTDIR\<close>; a file is removed, a directory is refused (\<^verbatim>\<open>recursive\<close> is not
  set).\<close>

definition rmSync_force :: "filesystem \<Rightarrow> string \<Rightarrow> error + filesystem" where
  "rmSync_force fs p =
     (let k = fs_key p
      in case stat fs k of
           Inl e \<Rightarrow> (if e = ENOENT then Inr fs else Inl e)
         | Inr None \<Rightarrow> Inr fs
         | Inr (Some Dir) \<Rightarrow> Inl EISDIR
         | Inr (Some (File _)) \<Rightarrow> Inr (fs(k := None)))"

section \<open>\<^verbatim>\<open>JSON.stringify\<close>\<close>

text \<open>The only value the plugin serialises is the object \<^verbatim>\<open>{ devServer: url }\<close>, with
  a tab as indentation. Strings are quoted as ECMAScript's \<^verbatim>\<open>QuoteJSONString\<close> does.\<close>

record InfoFileRecord =
  devServer :: string

definition quote_char :: "char \<Rightarrow> string" where
  "quote_char c =
     (if c = CHR 0x22 then [CHR 0x5C, CHR 0x22]
      else if c = CHR 0x5C then [CHR 0x5C, CHR 0x5C]
      else if c = CHR 0x08 then [CHR 0x5C, CHR ''b'']
      else if c = CHR 0x0C then [CHR 0x5C, CHR ''f'']
      else if c = CHR 0x0A then [CHR 0x5C, CHR ''n'']
      else if c = CHR 0x0D then [CHR 0x5C, CHR ''r'']
      else if c = CHR 0x09 then [CHR 0x5C, CHR ''t'']
      else if (of_char c :: nat) < 32
        then [CHR 0x5C, CHR ''u'', CHR ''0'', CHR ''0'',
              digit_char (of_char c div 16), digit_char (of_char c mod 16)]
      else [c])"

definition QuoteJSONString :: "string \<Rightarrow> string" where
  "QuoteJSONString s = [CHR 0x22] @ concat (map quote_char s) @ [CHR 0x22]"

definition JSON_stringify :: "InfoFileRecord \<Rightarrow> string" where
  "JSON_stringify d =
     ''{'' @ [CHR 0x0A, CHR 0x09] @ QuoteJSONString ''devServer'' @ '': ''
       @ QuoteJSONString (devServer d) @ [CHR 0x0A] @ ''}''"

text \<open>\<^verbatim>\<open>writeJson(filePath, data)\<close>.\<close>

definition writeJson :: "filesystem \<Rightarrow> string \<Rightarrow> InfoFileRecord \<Rightarrow> error + filesystem" where
  "writeJson fs filePath data =
     (let dir = dirname filePath
      in case (if \<not> existsSync fs dir then mkdirSync_recursive fs dir else Inr fs) of
           Inl e \<Rightarrow> Inl e
         | Inr fs' \<Rightarrow> writeFileSync fs' filePath (JSON_stringify data))"

section \<open>Configuration data\<close>

text \<open>\<^verbatim>\<open>interface PluginConfig { infoFile?: string; host?: string; entry?: string | string[] }\<close>\<close>

datatype entry_val = EntryStr string | EntryArr "string list"

record PluginConfig =
  infoFile :: "string option"
  host :: "string option"
  entry :: "entry_val option"

text \<open>The part of Vite's user configuration that the \<^verbatim>\<open>config\<close> hook reads.
  \<^verbatim>\<open>server.https\<close> is an options object or absent; only its truthiness is read.\<close>

datatype manifest_val = ManifestBool bool | ManifestStr string

datatype cors_origin = DefaultAllowedOrigins | Origin string

datatype cors_val = CorsBool bool | CorsOptions "cors_origin list"

datatype allowed_hosts = AllowAll | AllowList "string list"

record UserBuild =
  manifest :: "manifest_val option"
  outDir :: "string option"
  assetsDir :: "string option"

record UserServer =
  https :: bool
  server_host :: host_val
  cors :: "cors_val option"
  allowedHosts :: "allowed_hosts option"

record UserConfig =
  root :: "string option"
  base :: "string option"
  build :: "UserBuild option"
  server :: "UserServer option"

text \<open>The object returned by the \<^verbatim>\<open>config\<close> hook.\<close>

record ConfigResult =
  out_root :: string
  out_base :: string
  out_manifest :: manifest_val
  out_outDir :: string
  out_assetsDir :: string
  out_input :: "string list option"
  out_cors :: cors_val
  out_allowedHosts :: "allowed_hosts option"
  out_origin :: string

text \<open>The part of Vite's \<^verbatim>\<open>ResolvedConfig\<close> that the plugin reads or writes:
  \<^verbatim>\<open>command\<close>, \<^verbatim>\<open>root\<close>, \<^verbatim>\<open>build.outDir\<close>, \<^verbatim>\<open>server.https\<close>, \<^verbatim>\<open>server.host\<close>,
  \<^verbatim>\<open>server.origin\<close>.\<close>

datatype command = Build | Serve

record ResolvedConfig =
  command :: command
  rc_root :: string
  rc_outDir :: string
  rc_https :: bool
  rc_host :: host_val
  rc_origin :: "string option"

section \<open>The process\<close>

text \<open>
  The state the plugin lives in: the file system, the working directory, the objects of
  type \<^verbatim>\<open>ResolvedConfig\<close> (by address, since \<^verbatim>\<open>configResolved\<close> stores a reference and
  the listening handler writes through it), the two module-level variables
  \<^verbatim>\<open>resolvedConfig\<close> and \<^verbatim>\<open>pluginConfig\<close> (\<^const>\<open>None\<close> while unassigned), the port each
  HTTP server is bound to, and the registered event listeners in registration order.
  A listener is the closure the source registers, with the variables it captures.
\<close>

type_synonym HttpServer = nat

datatype event_name = OnListening | OnClose

datatype handler =
    ListeningHandler HttpServer string
  | CloseHandler string
  | SigintHandler HttpServer

record world =
  files :: filesystem
  cwd :: string
  heap :: "nat \<Rightarrow> ResolvedConfig"
  resolvedConfig :: "nat option"
  pluginConfig :: "PluginConfig option"
  address :: "HttpServer \<Rightarrow> nat option"
  listeners :: "(HttpServer \<times> event_name \<times> handler) list"
  sigint_listeners :: "handler list"
  exit_code :: "nat option"

record ViteDevServer =
  httpServer :: "HttpServer option"

section \<open>The dev-server coordinator: \<^verbatim>\<open>generateInfoFile\<close>\<close>

text \<open>The URL computed by the \<^verbatim>\<open>listening\<close> callback (the version of the source that
  has the \<^verbatim>\<open>host\<close> option).\<close>

definition devServerUrl :: "PluginConfig \<Rightarrow> ResolvedConfig \<Rightarrow> nat \<Rightarrow> string" where
  "devServerUrl pc rc port =
     (let protocol = (if rc_https rc then ''https'' else ''http'');
          host0 = js_or (js_or (case host pc of None \<Rightarrow> HostUndefined | Some h \<Rightarrow> HostStr h)
                               (rc_host rc))
                        (HostStr ''localhost'');
          host1 = (if host0 = HostBool True \<or> host0 = HostStr ''0.0.0.0''
                   then HostStr ''localhost'' else host0)
      in if port = 80 then protocol @ ''://'' @ to_string host1
         else protocol @ ''://'' @ to_string host1 @ '':'' @ string_of_nat port)"

definition on_listening :: "HttpServer \<Rightarrow> string \<Rightarrow> world \<Rightarrow> error + world" where
  "on_listening srv infoFilePath w =
     (case resolvedConfig w of
        None \<Rightarrow> Inl TypeError
      | Some a \<Rightarrow>
     (case pluginConfig w of
        None \<Rightarrow> Inl TypeError
      | Some pc \<Rightarrow>
     (case address w srv of
        None \<Rightarrow> Inl TypeError
      | Some port \<Rightarrow>
          (let url = devServerUrl pc (heap w a) port
           in case writeJson (files w) infoFilePath \<lparr>devServer = url\<rparr> of
                Inl e \<Rightarrow> Inl e
              | Inr fs' \<Rightarrow>
                  Inr (w\<lparr>files := fs',
                         heap := (heap w)(a := (heap w a)\<lparr>rc_origin := Some url\<rparr>)\<rparr>)))))"

definition on_close :: "string \<Rightarrow> world \<Rightarrow> error + world" where
  "on_close infoFilePath w =
     (case rmSync_force (files w) infoFilePath of
        Inl e \<Rightarrow> Inl e
      | Inr fs' \<Rightarrow> Inr (w\<lparr>files := fs'\<rparr>))"

text \<open>\<^verbatim>\<open>generateInfoFile(httpServer)\<close>: the path is computed once, then the three
  listeners are registered.\<close>

definition generateInfoFile :: "HttpServer \<Rightarrow> world \<Rightarrow> error + world" where
  "generateInfoFile srv w =
     (case resolvedConfig w of
        None \<Rightarrow> Inl TypeError
      | Some a \<Rightarrow>
     (case pluginConfig w of
        None \<Rightarrow> Inl TypeError
      | Some pc \<Rightarrow>
     (case infoFile pc of
        None \<Rightarrow> Inl TypeError
      | Some f \<Rightarrow>
          (let infoFilePath = path_resolve (cwd w) [rc_root (heap w a), rc_outDir (heap w a), f]
           in Inr (w\<lparr>listeners := listeners w
                        @ [(srv, OnListening, ListeningHandler srv infoFilePath),
                           (srv, OnClose, CloseHandler infoFilePath)],
                      sigint_listeners := sigint_listeners w @ [SigintHandler srv]\<rparr>)))))"

subsection \<open>Delivering events\<close>

text \<open>\<^verbatim>\<open>emit\<close> calls the listeners of the event in registration order; an exception
  thrown by one of them leaves \<^verbatim>\<open>emit\<close>.\<close>

fun run_handler :: "handler \<Rightarrow> world \<Rightarrow> error + world" where
  "run_handler (ListeningHandler srv p) w = on_listening srv p w"
| "run_handler (CloseHandler p) w = on_close p w"
| "run_handler (SigintHandler srv) w = Inr w"

fun run_handlers :: "handler list \<Rightarrow> world \<Rightarrow> error + world" where
  "run_handlers [] w = Inr w"
| "run_handlers (h # hs) w =
     (case run_handler h w of Inl e \<Rightarrow> Inl e | Inr w' \<Rightarrow> run_handlers hs w')"

definition emit :: "HttpServer \<Rightarrow> event_name \<Rightarrow> world \<Rightarrow> error + world" where
  "emit srv ev w =
     run_handlers (map (\<lambda>(s, e, h). h) (filter (\<lambda>(s, e, h). s = srv \<and> e = ev) (listeners w))) w"

text \<open>What the HTTP server does: it binds a port and emits \<^verbatim>\<open>listening\<close>, or it stops
  and emits \<^verbatim>\<open>close\<close>.\<close>

datatype event = Listening nat | Close

fun server_event :: "HttpServer \<Rightarrow> event \<Rightarrow> world \<Rightarrow> error + world" where
  "server_event srv (Listening port) w =
     emit srv OnListening (w\<lparr>address := (address w)(srv \<mapsto> port)\<rparr>)"
| "server_event srv Close w =
     emit srv OnClose (w\<lparr>address := (address w)(srv := None)\<rparr>)"

fun run_events :: "HttpServer \<Rightarrow> event list \<Rightarrow> world \<Rightarrow> error + world" where
  "run_events srv [] w = Inr w"
| "run_events srv (ev # evs) w =
     (case server_event srv ev w of Inl e \<Rightarrow> Inl e | Inr w' \<Rightarrow> run_events srv evs w')"

text \<open>\<^verbatim>\<open>SIGINT\<close>: each registered handler asks its server to close, which emits
  \<^verbatim>\<open>close\<close>, and exits with status 0 from the callback.\<close>

fun on_SIGINT :: "handler list \<Rightarrow> world \<Rightarrow> error + world" where
  "on_SIGINT [] w = Inr w"
| "on_SIGINT (SigintHandler srv # hs) w =
     (case server_event srv Close w of
        Inl e \<Rightarrow> Inl e
      | Inr w' \<Rightarrow> on_SIGINT hs (w'\<lparr>exit_code := Some 0\<rparr>))"
| "on_SIGINT (_ # hs) w = on_SIGINT hs w"

section \<open>The configuration resolver\<close>

text \<open>\<^verbatim>\<open>getDefaultOutDir()\<close>.\<close>

definition getDefaultOutDir :: "world \<Rightarrow> error + string" where
  "getDefaultOutDir w =
     (let projectRoot = cwd w;
          wwwDirectory = path_join [projectRoot, ''www''];
          assetsDirectory = path_join [wwwDirectory, ''assets'']
      in if \<not> existsSync (files w) wwwDirectory
         then Inl (Error (''The output directory '' @ [CHR 0x22] @ assetsDirectory @ [CHR 0x22]
                 @ '' does not exist. Please set '' @ [CHR 0x22] @ ''build.outDir'' @ [CHR 0x22]
                 @ '' in your Vite config.''))
         else Inr assetsDirectory)"

text \<open>Truthiness of an \<^verbatim>\<open>allowedHosts\<close> value: \<^verbatim>\<open>true\<close> and every array are truthy.\<close>

fun truthy_allowed :: "allowed_hosts \<Rightarrow> bool" where
  "truthy_allowed AllowAll = True"
| "truthy_allowed (AllowList hs) = True"

text \<open>The \<^verbatim>\<open>config(userConfig)\<close> hook. The expression for \<^verbatim>\<open>allowedHosts\<close> is
  \<^verbatim>\<open>userConfig.server?.allowedHosts ?? host === 'localhost' ? undefined : [host]\<close>;
  \<^verbatim>\<open>?:\<close> binds weaker than \<^verbatim>\<open>??\<close>, which binds weaker than \<^verbatim>\<open>===\<close>, so the condition
  of the conditional is \<^verbatim>\<open>(allowedHosts ?? (host === 'localhost'))\<close>.\<close>

definition config_hook :: "UserConfig \<Rightarrow> world \<Rightarrow> error + ConfigResult" where
  "config_hook userConfig w =
     (case pluginConfig w of
        None \<Rightarrow> Inl TypeError
      | Some pc \<Rightarrow>
     (let root' = (case root userConfig of None \<Rightarrow> ''assets'' | Some r \<Rightarrow> r);
          protocol = (if (case server userConfig of None \<Rightarrow> False | Some s \<Rightarrow> https s)
                      then ''https'' else ''http'');
          host0 = js_or (js_or (case host pc of None \<Rightarrow> HostUndefined | Some h \<Rightarrow> HostStr h)
                               (case server userConfig of
                                  None \<Rightarrow> HostUndefined | Some s \<Rightarrow> server_host s))
                        (HostStr ''localhost'');
          entry' = (case entry pc of
                      None \<Rightarrow> None
                    | Some (EntryStr e) \<Rightarrow>
                        (if e = [] then None else Some (map (\<lambda>e. path_resolve (cwd w) [root', e]) [e]))
                    | Some (EntryArr es) \<Rightarrow>
                        Some (map (\<lambda>e. path_resolve (cwd w) [root', e]) es));
          host1 = (if host0 = HostBool True \<or> host0 = HostStr ''0.0.0.0''
                   then HostStr ''localhost'' else host0)
      in case (case Option.bind (build userConfig) outDir of
                 Some d \<Rightarrow> Inr d
               | None \<Rightarrow> getDefaultOutDir w) of
           Inl e \<Rightarrow> Inl e
         | Inr outDir' \<Rightarrow>
             Inr \<lparr>out_root = root',
                  out_base = (case base userConfig of None \<Rightarrow> [] | Some b \<Rightarrow> b),
                  out_manifest = (case Option.bind (build userConfig) manifest of
                                    None \<Rightarrow> ManifestBool True | Some m \<Rightarrow> m),
                  out_outDir = outDir',
                  out_assetsDir = (case Option.bind (build userConfig) assetsDir of
                                     None \<Rightarrow> [] | Some d \<Rightarrow> d),
                  out_input = entry',
                  out_cors = (case Option.bind (server userConfig) cors of
                                Some c \<Rightarrow> c
                              | None \<Rightarrow> CorsOptions [DefaultAllowedOrigins,
                                          Origin (protocol @ ''://'' @ to_string host1)]),
                  out_allowedHosts =
                    (if (case Option.bind (server userConfig) allowedHosts of
                           Some v \<Rightarrow> truthy_allowed v
                         | None \<Rightarrow> host1 = HostStr ''localhost'')
                     then None else Some (AllowList [to_string host1])),
                  out_origin = []\<rparr>))"

text \<open>\<^verbatim>\<open>configResolved(config)\<close> stores the reference.\<close>

definition configResolved_hook :: "nat \<Rightarrow> world \<Rightarrow> world" where
  "configResolved_hook a w = w\<lparr>resolvedConfig := Some a\<rparr>"

text \<open>\<^verbatim>\<open>configureServer(devServer)\<close>.\<close>

definition configureServer_hook :: "ViteDevServer \<Rightarrow> world \<Rightarrow> error + world" where
  "configureServer_hook dev w =
     (case resolvedConfig w of
        None \<Rightarrow> Inl TypeError
      | Some a \<Rightarrow>
          (case httpServer dev of
             Some srv \<Rightarrow>
               (if command (heap w a) = Serve then generateInfoFile srv w else Inr w)
           | None \<Rightarrow> Inr w))"

text \<open>The factory \<^verbatim>\<open>vitePluginNette(config)\<close> assigns the module-level \<^verbatim>\<open>pluginConfig\<close>
  and returns the plugin object. The hooks are closures over the module's variables
  only; none of them refers to the parameter \<^verbatim>\<open>config\<close>.\<close>

record Plugin =
  name :: string
  config :: "UserConfig \<Rightarrow> world \<Rightarrow> error + ConfigResult"
  configResolved :: "nat \<Rightarrow> world \<Rightarrow> world"
  configureServer :: "ViteDevServer \<Rightarrow> world \<Rightarrow> error + world"

definition vitePluginNette :: "PluginConfig \<Rightarrow> world \<Rightarrow> Plugin \<times> world" where
  "vitePluginNette cfg w =
     (\<lparr>name = ''vite-plugin-nette'',
       config = config_hook,
       configResolved = configResolved_hook,
       configureServer = configureServer_hook\<rparr>,
      w\<lparr>pluginConfig :=
           Some \<lparr>infoFile = Some (case infoFile cfg of None \<Rightarrow> ''.vite/nette.json'' | Some f \<Rightarrow> f),
                 host = host cfg,
                 entry = entry cfg\<rparr>\<rparr>)"

section \<open>Normal forms of paths\<close>

text \<open>A segment that normalisation keeps, and the absolute path made of such segments.
  These describe the results of \<^const>\<open>path_resolve\<close>; the code does not compute them.\<close>

definition plain :: "string \<Rightarrow> bool" where
  "plain s = (s \<noteq> [] \<and> s \<noteq> ''.'' \<and> s \<noteq> ''..'' \<and> CHR ''/'' \<notin> set s)"

definition abs_path :: "string list \<Rightarrow> string" where
  "abs_path segs = CHR ''/'' # join_with ''/'' segs"

section \<open>Conditions on the file system\<close>



text \<open>The entries that \<^const>\<open>mkdirs\<close> visits: \<open>pre\<close> extended by a non-empty prefix of the
  remaining segments.\<close>

definition below :: "string list \<Rightarrow> string list \<Rightarrow> string list set" where
  "below pre ss = {pre @ q | q. q \<noteq> [] \<and> prefix q ss}"


section \<open>The revision of the module in \<^verbatim>\<open>src/index.ts\<close>\<close>

text \<open>
  The repository also holds, as \<^verbatim>\<open>src/index.ts\<close>, a revision of the same module whose
  \<^verbatim>\<open>PluginConfig\<close> has no \<^verbatim>\<open>host\<close> field. Its \<^verbatim>\<open>listening\<close> callback reads
  \<^verbatim>\<open>let host = resolvedConfig.server.host || 'localhost'\<close> and
  \<^verbatim>\<open>let devServerUrl = `${protocol}://${host}:${port}`\<close>; its \<^verbatim>\<open>config\<close> hook reads
  \<^verbatim>\<open>let host = userConfig.server?.host || 'localhost'\<close>. The rest of the callback is the
  same (the banner it prints after 200 ms is left out: nothing reads the console).
\<close>

definition devServerUrl_index :: "ResolvedConfig \<Rightarrow> nat \<Rightarrow> string" where
  "devServerUrl_index rc port =
     (let protocol = (if rc_https rc then ''https'' else ''http'');
          host0 = js_or (rc_host rc) (HostStr ''localhost'')
      in protocol @ ''://'' @ to_string host0 @ '':'' @ string_of_nat port)"

definition on_listening_index :: "HttpServer \<Rightarrow> string \<Rightarrow> world \<Rightarrow> error + world" where
  "on_listening_index srv infoFilePath w =
     (case resolvedConfig w of
        None \<Rightarrow> Inl TypeError
      | Some a \<Rightarrow>
     (case address w srv of
        None \<Rightarrow> Inl TypeError
      | Some port \<Rightarrow>
          (let url = devServerUrl_index (heap w a) port
           in case writeJson (files w) infoFilePath \<lparr>devServer = url\<rparr> of
                Inl e \<Rightarrow> Inl e
              | Inr fs' \<Rightarrow>
                  Inr (w\<lparr>files := fs',
                         heap := (heap w)(a := (heap w a)\<lparr>rc_origin := Some url\<rparr>)\<rparr>))))"

definition config_cors_index :: "UserConfig \<Rightarrow> cors_val" where
  "config_cors_index userConfig =
     (let protocol = (if (case server userConfig of None \<Rightarrow> False | Some s \<Rightarrow> https s)
                      then ''https'' else ''http'');
          host0 = js_or (case server userConfig of
                           None \<Rightarrow> HostUndefined | Some s \<Rightarrow> server_host s)
                        (HostStr ''localhost'')
      in case Option.bind (server userConfig) cors of
           Some c \<Rightarrow> c
         | None \<Rightarrow> CorsOptions [DefaultAllowedOrigins,
                     Origin (protocol @ ''://'' @ to_string host0)])"

section \<open>The vocabulary of the specification\<close>




text \<open>The advertised host in the specification's words: the plugin's host override if
  set, else the server host of the configuration if set, else \<^verbatim>\<open>localhost\<close>; the
  all-interfaces sentinel (\<^verbatim>\<open>true\<close> or \<^verbatim>\<open>0.0.0.0\<close>) is replaced by \<^verbatim>\<open>localhost\<close>.\<close>

definition advertised_host :: "string option \<Rightarrow> host_val \<Rightarrow> string" where
  "advertised_host override configured =
     (let chosen =
            (case override of
               Some h \<Rightarrow> (if h \<noteq> [] then HostStr h
                          else if truthy configured then configured else HostStr ''localhost'')
             | None \<Rightarrow> (if truthy configured then configured else HostStr ''localhost''))
      in if chosen = HostBool True \<or> chosen = HostStr ''0.0.0.0'' then ''localhost''
         else to_string chosen)"


section \<open>A sample project\<close>

definition example_config :: ResolvedConfig where
  "example_config =
     \<lparr>command = Serve, rc_root = ''/proj'', rc_outDir = ''/proj/www/assets'',
      rc_https = False, rc_host = HostStr ''localhost'', rc_origin = Some []\<rparr>"

definition example_files :: filesystem where
  "example_files =
     [[''proj''] \<mapsto> Dir, [''proj'', ''www''] \<mapsto> Dir, [''proj'', ''www'', ''assets''] \<mapsto> Dir]"

definition example_world :: world where
  "example_world =
     \<lparr>files = example_files, cwd = ''/proj'', heap = (\<lambda>a. example_config),
      resolvedConfig = None, pluginConfig = None, address = (\<lambda>srv. None),
      listeners = [], sigint_listeners = [], exit_code = None\<rparr>"

definition no_options :: PluginConfig where
  "no_options = \<lparr>infoFile = None, host = None, entry = None\<rparr>"


definition docker_options :: PluginConfig where
  "docker_options = \<lparr>infoFile = None, host = Some ''192.168.1.200'', entry = None\<rparr>"

definition server_config :: "host_val \<Rightarrow> UserConfig" where
  "server_config h =
     \<lparr>root = None, base = None, build = None,
      server = Some \<lparr>https = False, server_host = h, cors = None, allowedHosts = None\<rparr>\<rparr>"

text \<open>The sample project after the factory and \<^verbatim>\<open>configResolved\<close> have run, under
  \<^verbatim>\<open>vite build\<close> and under \<^verbatim>\<open>vite serve\<close>.\<close>

definition build_world :: world where
  "build_world =
     configResolved_hook 0
       (snd (vitePluginNette no_options
               (example_world\<lparr>heap := (\<lambda>a. example_config\<lparr>command := Build\<rparr>)\<rparr>)))"

definition serve_world :: world where
  "serve_world = configResolved_hook 0 (snd (vitePluginNette no_options example_world))"

definition second_options :: PluginConfig where
  "second_options = \<lparr>infoFile = Some ''second.json'', host = Some ''second.test'', entry = None\<rparr>"

definition outDir_config :: UserConfig where
  "outDir_config =
     \<lparr>root = None, base = None,
      build = Some \<lparr>manifest = None, outDir = Some ''/srv/out'', assetsDir = None\<rparr>,
      server = None\<rparr>"

text \<open>Two plugin instances constructed one after the other in the sample project.\<close>

definition first_instance :: "Plugin \<times> world" where
  "first_instance = vitePluginNette docker_options example_world"

definition second_instance :: "Plugin \<times> world" where
  "second_instance = vitePluginNette second_options (snd first_instance)"



text \<open>The resolved entry in words: an absolute entry in normalised form, any other entry
  resolved against the resolved root directory.\<close>

definition resolve_entry :: "string \<Rightarrow> string \<Rightarrow> string \<Rightarrow> string" where
  "resolve_entry wd rt e =
     (if isAbsolute e then CHR ''/'' # normalizeString e False
      else path_resolve (path_resolve wd [rt]) [e])"

definition entry_options :: "entry_val \<Rightarrow> PluginConfig" where
  "entry_options e = \<lparr>infoFile = None, host = None, entry = Some e\<rparr>"



section \<open>Paths: splitting, normalising, resolving\<close>

lemma split_on_nonempty [simp]: "split_on c xs \<noteq> []"
  by (induction xs) (simp_all split: list.split)

lemma split_on_Cons:
  "split_on c (x # xs) =
     (if x = c then [] # split_on c xs else (x # hd (split_on c xs)) # tl (split_on c xs))"
proof (cases "split_on c xs")
  case Nil
  then show ?thesis using split_on_nonempty [of c xs] by simp
next
  case (Cons r rs)
  then show ?thesis by simp
qed

lemma split_on_append: "split_on c (a @ c # b) = split_on c a @ split_on c b"
proof (induction a)
  case Nil
  show ?case by (simp add: split_on_Cons del: split_on.simps(2))
next
  case (Cons x a)
  have "split_on c ((x # a) @ c # b) = split_on c (x # (a @ c # b))" by simp
  also have "\<dots> = (if x = c then [] # split_on c (a @ c # b)
        else (x # hd (split_on c (a @ c # b))) # tl (split_on c (a @ c # b)))"
    by (rule split_on_Cons)
  also have "\<dots> = split_on c (x # a) @ split_on c b"
    unfolding Cons.IH split_on_Cons [of c x a] by simp
  finally show ?case .
qed

lemma split_on_no_sep: "c \<notin> set s \<Longrightarrow> split_on c s = [s]"
  by (induction s) auto

lemma split_on_join:
  "\<forall>s\<in>set segs. c \<notin> set s \<Longrightarrow> segs \<noteq> [] \<Longrightarrow> split_on c (join_with [c] segs) = segs"
proof (induction segs)
  case Nil
  then show ?case by simp
next
  case (Cons s segs)
  show ?case
  proof (cases "segs = []")
    case True
    with Cons.prems show ?thesis by (simp add: split_on_no_sep)
  next
    case False
    with Cons show ?thesis
      by (simp add: split_on_append split_on_no_sep)
  qed
qed

lemma split_on_elems: "s \<in> set (split_on c xs) \<Longrightarrow> c \<notin> set s"
proof (induction xs arbitrary: s)
  case Nil
  then show ?case by simp
next
  case (Cons x xs)
  show ?case
  proof (cases "x = c")
    case True
    with Cons.prems have "s = [] \<or> s \<in> set (split_on c xs)"
      by (simp add: split_on_Cons del: split_on.simps(2))
    with Cons.IH show ?thesis by auto
  next
    case False
    have ne: "split_on c xs \<noteq> []" by simp
    from Cons.prems False have "s = x # hd (split_on c xs) \<or> s \<in> set (tl (split_on c xs))"
      by (simp add: split_on_Cons del: split_on.simps(2))
    then show ?thesis
    proof
      assume "s = x # hd (split_on c xs)"
      moreover have "c \<notin> set (hd (split_on c xs))"
        using Cons.IH [of "hd (split_on c xs)"] ne by simp
      ultimately show ?thesis using False by auto
    next
      assume "s \<in> set (tl (split_on c xs))"
      then have "s \<in> set (split_on c xs)" using ne by (meson list.set_sel(2))
      then show ?thesis by (rule Cons.IH)
    qed
  qed
qed

lemma normalize_segs_append:
  "normalize_segs up acc (xs @ ys) = normalize_segs up (rev (normalize_segs up acc xs)) ys"
  by (induction xs arbitrary: acc) auto

lemma normalize_segs_keep:
  "plain s \<Longrightarrow> normalize_segs up acc (s # ss) = normalize_segs up (s # acc) ss"
  by (simp add: plain_def)

lemma normalize_segs_plain:
  "list_all plain segs \<Longrightarrow> normalize_segs up acc segs = rev acc @ segs"
proof (induction segs arbitrary: acc)
  case Nil
  show ?case by simp
next
  case (Cons s segs)
  then have "plain s" "list_all plain segs" by simp_all
  then show ?case
    using Cons.IH [of "s # acc"] by (simp only: normalize_segs_keep) simp
qed

lemma normalize_segs_out_plain:
  "list_all plain acc \<Longrightarrow> \<forall>s\<in>set xs. CHR ''/'' \<notin> set s
     \<Longrightarrow> list_all plain (normalize_segs False acc xs)"
proof (induction xs arbitrary: acc)
  case Nil
  then show ?case by (simp add: list_all_iff)
next
  case (Cons s ss)
  have rest: "\<forall>s\<in>set ss. CHR ''/'' \<notin> set s" using Cons.prems(2) by simp
  consider (skip) "s = [] \<or> s = ''.''" | (up) "s = ''..''" | (keep) "s \<noteq> []" "s \<noteq> ''.''" "s \<noteq> ''..''"
    by blast
  then show ?case
  proof cases
    case skip
    then have "normalize_segs False acc (s # ss) = normalize_segs False acc ss" by auto
    with Cons.IH [OF Cons.prems(1) rest] show ?thesis by simp
  next
    case up
    have pt: "list_all plain (tl acc)" using Cons.prems(1) by (cases acc) simp_all
    have "normalize_segs False acc (s # ss) = normalize_segs False (tl acc) ss
          \<or> normalize_segs False acc (s # ss) = normalize_segs False acc ss"
      unfolding up by simp
    with Cons.IH [OF Cons.prems(1) rest] Cons.IH [OF pt rest] show ?thesis by auto
  next
    case keep
    then have p: "plain s" using Cons.prems(2) by (simp add: plain_def)
    then have "list_all plain (s # acc)" using Cons.prems(1) by simp
    from Cons.IH [OF this rest] show ?thesis by (simp only: normalize_segs_keep [OF p])
  qed
qed

lemma resolve_loop_abs:
  "\<exists>p\<in>set ps. isAbsolute p \<Longrightarrow> snd (resolve_loop ps acc) = True"
  by (induction ps acc rule: resolve_loop.induct) (auto simp: isAbsolute_def)


lemma plain_no_sep: "list_all plain segs \<Longrightarrow> \<forall>s\<in>set segs. CHR ''/'' \<notin> set s"
  by (auto simp: list_all_iff plain_def)

lemma split_abs_path:
  "list_all plain segs \<Longrightarrow> split_on CHR ''/'' (abs_path segs) = [] # (if segs = [] then [[]] else segs)"
proof -
  assume p: "list_all plain segs"
  have "split_on CHR ''/'' (abs_path segs) = [] # split_on CHR ''/'' (join_with ''/'' segs)"
    unfolding abs_path_def by (simp add: split_on_Cons del: split_on.simps(2))
  also have "split_on CHR ''/'' (join_with ''/'' segs) = (if segs = [] then [[]] else segs)"
    using split_on_join [of segs "CHR ''/''"] plain_no_sep [OF p] by simp
  finally show ?thesis .
qed


lemma join_with_snoc:
  "segs \<noteq> [] \<Longrightarrow> join_with sep (segs @ [s]) = join_with sep segs @ sep @ s"
  by (induction segs) auto



section \<open>The file system calls\<close>

lemma set_ancestors: "set (ancestors k) = {q. q \<noteq> [] \<and> strict_prefix q k}"
proof (intro set_eqI iffI)
  fix q assume "q \<in> set (ancestors k)"
  then obtain i where i: "1 \<le> i" "i < length k" "q = take i k"
    by (auto simp: ancestors_def)
  then have "q \<noteq> []" "prefix q k" "length q < length k"
    by (auto simp: take_is_prefix)
  then show "q \<in> {q. q \<noteq> [] \<and> strict_prefix q k}"
    by (auto simp: strict_prefix_def)
next
  fix q assume "q \<in> {q. q \<noteq> [] \<and> strict_prefix q k}"
  then have q: "q \<noteq> []" "prefix q k" "q \<noteq> k" by (auto simp: strict_prefix_def)
  then obtain r where r: "k = q @ r" "r \<noteq> []" by (auto simp: prefix_def)
  then have "q = take (length q) k" "1 \<le> length q" "length q < length k"
    using q by (auto simp: Suc_le_eq)
  then show "q \<in> set (ancestors k)"
    unfolding ancestors_def set_map by (metis atLeastLessThan_iff imageI set_upt)
qed

lemma below_Nil [simp]: "below pre [] = {}"
  by (auto simp: below_def)




lemma prefix_butlast_iff:
  assumes "k \<noteq> []"
  shows "prefix q (butlast k) \<longleftrightarrow> strict_prefix q k"
proof -
  obtain b l where k: "k = b @ [l]" using assms by (cases k rule: rev_cases) auto
  have "prefix q b \<Longrightarrow> q \<noteq> b @ [l]"
    using prefix_length_le [of q b] by auto
  then show ?thesis
    unfolding k by (auto simp: strict_prefix_def)
qed




lemma ancestors_Nil [simp]: "ancestors [] = []"
  by (simp add: ancestors_def)

lemma ancestors_butlast:
  assumes "k \<noteq> []"
  shows "set (ancestors k) = set (ancestors (butlast k)) \<union> (if butlast k = [] then {} else {butlast k})"
proof -
  have "set (ancestors k) = {q. q \<noteq> [] \<and> prefix q (butlast k)}"
    by (simp add: set_ancestors prefix_butlast_iff [OF assms])
  also have "\<dots> = {q. q \<noteq> [] \<and> strict_prefix q (butlast k)}
      \<union> (if butlast k = [] then {} else {butlast k})"
    by (auto simp: strict_prefix_def)
  finally show ?thesis by (simp add: set_ancestors)
qed

lemma parent_is_ancestor: "butlast k \<noteq> [] \<Longrightarrow> butlast k \<in> set (ancestors k)"
proof -
  assume b: "butlast k \<noteq> []"
  then have "k \<noteq> []" by auto
  from ancestors_butlast [OF this] b show ?thesis by simp
qed

lemma ancestors_of_parent: "q \<in> set (ancestors (butlast k)) \<Longrightarrow> q \<in> set (ancestors k)"
proof -
  assume q: "q \<in> set (ancestors (butlast k))"
  then have "k \<noteq> []" by auto
  from ancestors_butlast [OF this] q show ?thesis by simp
qed



section \<open>Writing and removing a file\<close>













section \<open>The advertised host and the hook's result\<close>

lemma host_chain:
  "js_or (js_or (case ov of None \<Rightarrow> HostUndefined | Some h \<Rightarrow> HostStr h) c) (HostStr ''localhost'')
   = (case ov of
        Some h \<Rightarrow> (if h \<noteq> [] then HostStr h
                   else if truthy c then c else HostStr ''localhost'')
      | None \<Rightarrow> (if truthy c then c else HostStr ''localhost''))"
  by (cases ov) (simp_all add: js_or_def)

lemma chosen_truthy:
  "truthy (case ov of
        Some h \<Rightarrow> (if h \<noteq> [] then HostStr h
                   else if truthy c then c else HostStr ''localhost'')
      | None \<Rightarrow> (if truthy c then c else HostStr ''localhost''))"
  by (cases ov) simp_all

lemma truthy_normalised:
  "truthy x \<Longrightarrow>
   (if x = HostBool True \<or> x = HostStr ''0.0.0.0'' then HostStr ''localhost'' else x)
   = HostStr (if x = HostBool True \<or> x = HostStr ''0.0.0.0'' then ''localhost'' else to_string x)"
  by (cases x) simp_all

lemma host1_eq:
  "(if js_or (js_or (case ov of None \<Rightarrow> HostUndefined | Some h \<Rightarrow> HostStr h) c) (HostStr ''localhost'') = HostBool True
      \<or> js_or (js_or (case ov of None \<Rightarrow> HostUndefined | Some h \<Rightarrow> HostStr h) c) (HostStr ''localhost'') = HostStr ''0.0.0.0''
    then HostStr ''localhost''
    else js_or (js_or (case ov of None \<Rightarrow> HostUndefined | Some h \<Rightarrow> HostStr h) c) (HostStr ''localhost''))
   = HostStr (advertised_host ov c)"
  unfolding host_chain advertised_host_def Let_def
  by (rule truthy_normalised) (rule chosen_truthy)

lemma devServerUrl_format:
  "devServerUrl pc rc port =
     (if rc_https rc then ''https'' else ''http'') @ ''://''
       @ advertised_host (host pc) (rc_host rc)
       @ (if port = 80 then [] else '':'' @ string_of_nat port)"
  unfolding devServerUrl_def Let_def host1_eq
  by simp


lemma config_hook_eq:
  assumes "pluginConfig w = Some pc"
  shows "config_hook u w =
     (case (case Option.bind (build u) outDir of
                 Some d \<Rightarrow> Inr d
               | None \<Rightarrow> getDefaultOutDir w) of
        Inl e \<Rightarrow> Inl e
      | Inr d \<Rightarrow>
         Inr \<lparr>out_root = (case root u of None \<Rightarrow> ''assets'' | Some r \<Rightarrow> r),
          out_base = (case base u of None \<Rightarrow> [] | Some b \<Rightarrow> b),
          out_manifest = (case Option.bind (build u) manifest of
                            None \<Rightarrow> ManifestBool True | Some m \<Rightarrow> m),
          out_outDir = d,
          out_assetsDir = (case Option.bind (build u) assetsDir of None \<Rightarrow> [] | Some d \<Rightarrow> d),
          out_input = (case entry pc of
                      None \<Rightarrow> None
                    | Some (EntryStr e) \<Rightarrow>
                        (if e = [] then None
                         else Some [path_resolve (cwd w) [(case root u of None \<Rightarrow> ''assets'' | Some r \<Rightarrow> r), e]])
                    | Some (EntryArr es) \<Rightarrow>
                        Some (map (\<lambda>e. path_resolve (cwd w) [(case root u of None \<Rightarrow> ''assets'' | Some r \<Rightarrow> r), e]) es)),
          out_cors = (case Option.bind (server u) cors of
                        Some c \<Rightarrow> c
                      | None \<Rightarrow> CorsOptions [DefaultAllowedOrigins,
                         Origin ((if (case server u of None \<Rightarrow> False | Some s \<Rightarrow> https s) then ''https'' else ''http'')
                           @ ''://'' @ advertised_host (host pc)
                              (case server u of None \<Rightarrow> HostUndefined | Some s \<Rightarrow> server_host s))]),
          out_allowedHosts =
            (if (case Option.bind (server u) allowedHosts of
                   Some v \<Rightarrow> truthy_allowed v
                 | None \<Rightarrow> advertised_host (host pc)
                      (case server u of None \<Rightarrow> HostUndefined | Some s \<Rightarrow> server_host s) = ''localhost'')
             then None
             else Some (AllowList [advertised_host (host pc)
                      (case server u of None \<Rightarrow> HostUndefined | Some s \<Rightarrow> server_host s)])),
          out_origin = []\<rparr>)"
proof (cases "case Option.bind (build u) outDir of Some d \<Rightarrow> Inr d | None \<Rightarrow> getDefaultOutDir w")
  case (Inl e)
  then show ?thesis
    unfolding config_hook_def Let_def host1_eq using assms by simp
next
  case (Inr d)
  have "map f [e] = [f e]" for f :: "string \<Rightarrow> string" and e by simp
  then show ?thesis
    unfolding config_hook_def Let_def host1_eq Inr using assms
    by (simp cong: option.case_cong entry_val.case_cong if_cong)
qed

section \<open>The dev-server URL\<close>

lemma string_of_nat_80: "string_of_nat 80 = ''80''"
  by (simp add: string_of_nat.simps digit_char_def)

lemma string_of_nat_5173: "string_of_nat 5173 = ''5173''"
  by (simp add: string_of_nat.simps digit_char_def)

lemma config_hook_cors_host:
  assumes "config_hook u w = Inr r" and "pluginConfig w = Some pc"
    and "Option.bind (server u) cors = None"
  shows "out_cors r = CorsOptions [DefaultAllowedOrigins,
           Origin ((if (case server u of None \<Rightarrow> False | Some s \<Rightarrow> https s)
                    then ''https'' else ''http'')
             @ ''://'' @ advertised_host (host pc)
                 (case server u of None \<Rightarrow> HostUndefined | Some s \<Rightarrow> server_host s))]"
proof (cases "case Option.bind (build u) outDir of Some d \<Rightarrow> Inr d | None \<Rightarrow> getDefaultOutDir w")
  case (Inl e)
  with assms(1) show ?thesis unfolding config_hook_eq [OF assms(2)] by simp
next
  case (Inr d)
  with assms(1) have "out_cors r = (case Option.bind (server u) cors of
                        Some c \<Rightarrow> c
                      | None \<Rightarrow> CorsOptions [DefaultAllowedOrigins,
                         Origin ((if (case server u of None \<Rightarrow> False | Some s \<Rightarrow> https s) then ''https'' else ''http'')
                           @ ''://'' @ advertised_host (host pc)
                              (case server u of None \<Rightarrow> HostUndefined | Some s \<Rightarrow> server_host s))])"
    unfolding config_hook_eq [OF assms(2)] by auto
  with assms(3) show ?thesis by simp
qed

text \<open>
  C2. The claim: the URL is \<^verbatim>\<open><protocol>://<host>:<port>\<close>, and \<^verbatim>\<open><protocol>://<host>\<close> when
  the port is 80. The revision with the \<^verbatim>\<open>host\<close> option does that
  (\<open>devServerUrl_format\<close>). The \<^verbatim>\<open>listening\<close> callback of \<^verbatim>\<open>src/index.ts\<close> has no case
  for port 80: for \<^verbatim>\<open>localhost\<close> bound to port 80 it produces \<^verbatim>\<open>http://localhost:80\<close>,
  where the repository's test "should not include port 80 in info file" expects
  \<^verbatim>\<open>http://localhost\<close>.
\<close>

theorem src_index_keeps_port_80:
  "devServerUrl_index example_config 80 = ''http://localhost:80''"
  by (simp add: devServerUrl_index_def example_config_def js_or_def string_of_nat_80)

text \<open>
  C3. The claim: the advertised host is the plugin's override, else the server host, else
  \<^verbatim>\<open>localhost\<close>, and the all-interfaces sentinel (\<^verbatim>\<open>true\<close>, \<^verbatim>\<open>0.0.0.0\<close>) becomes
  \<^verbatim>\<open>localhost\<close>, in the URL and in the CORS origin. The revision with the \<^verbatim>\<open>host\<close> option
  does that (\<open>devServerUrl_format\<close>, \<open>config_hook_cors_host\<close>). \<^verbatim>\<open>src/index.ts\<close> advertises
  the sentinel itself: \<^verbatim>\<open>http://true:5173\<close> and \<^verbatim>\<open>http://0.0.0.0:5173\<close> in the URL,
  \<^verbatim>\<open>http://true\<close> in the CORS origin, where the repository's tests expect
  \<^verbatim>\<open>http://localhost:5173\<close>.
\<close>

theorem src_index_advertises_sentinel:
  "devServerUrl_index (example_config\<lparr>rc_host := HostBool True\<rparr>) 5173 = ''http://true:5173''
   \<and> devServerUrl_index (example_config\<lparr>rc_host := HostStr ''0.0.0.0''\<rparr>) 5173 = ''http://0.0.0.0:5173''
   \<and> config_cors_index (server_config (HostBool True))
       = CorsOptions [DefaultAllowedOrigins, Origin ''http://true'']"
  by (simp add: devServerUrl_index_def example_config_def js_or_def string_of_nat_5173
        config_cors_index_def server_config_def)

section \<open>The default output directory\<close>


lemma normalize_abs_path:
  assumes "list_all plain segs"
  shows "normalize_segs up [] (split_on CHR ''/'' (abs_path segs) @ rest)
         = normalize_segs up (rev segs) rest"
proof -
  have "normalize_segs up [] (split_on CHR ''/'' (abs_path segs))
        = normalize_segs up [] (if segs = [] then [[]] else segs)"
    by (simp add: split_abs_path [OF assms])
  also have "\<dots> = segs"
    using normalize_segs_plain [OF assms, of up "[]"] by simp
  finally have "normalize_segs up [] (split_on CHR ''/'' (abs_path segs)) = segs" .
  then show ?thesis by (simp add: normalize_segs_append)
qed




lemma abs_path_snoc: "segs \<noteq> [] \<Longrightarrow> abs_path (segs @ [s]) = abs_path segs @ ''/'' @ s"
  by (simp add: abs_path_def join_with_snoc)







section \<open>Allowed hosts\<close>

text \<open>
  C6, as stated, fails: with no host override and the server host \<^verbatim>\<open>example.com\<close> in the
  incoming configuration, the claim has \<^verbatim>\<open>allowedHosts\<close> omitted, and the hook returns
  \<^verbatim>\<open>['example.com']\<close>.
\<close>

theorem allowedHosts_without_override:
  "host no_options = None
   \<and> config_hook (server_config (HostStr ''example.com''))
        (snd (vitePluginNette no_options example_world))
      = Inr \<lparr>out_root = ''assets'', out_base = [], out_manifest = ManifestBool True,
             out_outDir = ''/proj/www/assets'', out_assetsDir = [], out_input = None,
             out_cors = CorsOptions [DefaultAllowedOrigins, Origin ''http://example.com''],
             out_allowedHosts = Some (AllowList [''example.com'']), out_origin = []\<rparr>"
  by code_simp

text \<open>
  C6, amended. When the incoming configuration has no \<^verbatim>\<open>allowedHosts\<close>, the hook returns
  the one-element list of the advertised host (the override, else the server host, else
  \<^verbatim>\<open>localhost\<close>, the sentinel replaced by \<^verbatim>\<open>localhost\<close>) when that host is not
  \<^verbatim>\<open>localhost\<close>, and omits the setting when it is.
\<close>

theorem allowedHosts_follows_advertised_host:
  assumes "config_hook u w = Inr r" and "pluginConfig w = Some pc"
    and "Option.bind (server u) allowedHosts = None"
  shows "out_allowedHosts r =
     (if advertised_host (host pc)
           (case server u of None \<Rightarrow> HostUndefined | Some s \<Rightarrow> server_host s) = ''localhost''
      then None
      else Some (AllowList [advertised_host (host pc)
              (case server u of None \<Rightarrow> HostUndefined | Some s \<Rightarrow> server_host s)]))"
proof (cases "case Option.bind (build u) outDir of Some d \<Rightarrow> Inr d | None \<Rightarrow> getDefaultOutDir w")
  case (Inl e)
  with assms(1) show ?thesis unfolding config_hook_eq [OF assms(2)] by simp
next
  case (Inr d)
  with assms(1) have "out_allowedHosts r =
            (if (case Option.bind (server u) allowedHosts of
                   Some v \<Rightarrow> truthy_allowed v
                 | None \<Rightarrow> advertised_host (host pc)
                      (case server u of None \<Rightarrow> HostUndefined | Some s \<Rightarrow> server_host s) = ''localhost'')
             then None
             else Some (AllowList [advertised_host (host pc)
                      (case server u of None \<Rightarrow> HostUndefined | Some s \<Rightarrow> server_host s)]))"
    unfolding config_hook_eq [OF assms(2)] by auto
  with assms(3) show ?thesis by simp
qed

theorem allowedHosts_follows_advertised_host_witness:
  "config_hook (server_config (HostBool True)) (snd (vitePluginNette docker_options example_world))
     = Inr \<lparr>out_root = ''assets'', out_base = [], out_manifest = ManifestBool True,
             out_outDir = ''/proj/www/assets'', out_assetsDir = [], out_input = None,
             out_cors = CorsOptions [DefaultAllowedOrigins, Origin ''http://192.168.1.200''],
             out_allowedHosts = Some (AllowList [''192.168.1.200'']), out_origin = []\<rparr>
   \<and> pluginConfig (snd (vitePluginNette docker_options example_world))
     = Some \<lparr>infoFile = Some ''.vite/nette.json'', host = Some ''192.168.1.200'', entry = None\<rparr>
   \<and> Option.bind (server (server_config (HostBool True))) allowedHosts = None
   \<and> Some (AllowList [''192.168.1.200''])
     = (if advertised_host (Some ''192.168.1.200'') (HostBool True) = ''localhost'' then None
        else Some (AllowList [advertised_host (Some ''192.168.1.200'') (HostBool True)]))"
proof -
  have h1: "config_hook (server_config (HostBool True)) (snd (vitePluginNette docker_options example_world))
     = Inr \<lparr>out_root = ''assets'', out_base = [], out_manifest = ManifestBool True,
             out_outDir = ''/proj/www/assets'', out_assetsDir = [], out_input = None,
             out_cors = CorsOptions [DefaultAllowedOrigins, Origin ''http://192.168.1.200''],
             out_allowedHosts = Some (AllowList [''192.168.1.200'']), out_origin = []\<rparr>"
    by code_simp
  have h2: "pluginConfig (snd (vitePluginNette docker_options example_world))
     = Some \<lparr>infoFile = Some ''.vite/nette.json'', host = Some ''192.168.1.200'', entry = None\<rparr>"
    by code_simp
  have h3: "Option.bind (server (server_config (HostBool True))) allowedHosts = None"
    by code_simp
  from allowedHosts_follows_advertised_host [OF h1 h2 h3]
  have "Some (AllowList [''192.168.1.200''])
     = (if advertised_host (Some ''192.168.1.200'') (HostBool True) = ''localhost'' then None
        else Some (AllowList [advertised_host (Some ''192.168.1.200'') (HostBool True)]))"
    by (simp add: server_config_def)
  with h1 h2 h3 show ?thesis by (intro conjI)
qed

section \<open>Entry points\<close>


lemma resolve_loop_acc:
  "resolve_loop ps acc = (fst (resolve_loop ps []) @ acc, snd (resolve_loop ps []))"
proof (induction ps arbitrary: acc)
  case Nil
  show ?case by simp
next
  case (Cons p ps)
  show ?case
  proof (cases "p = [] \<or> isAbsolute p")
    case True
    then show ?thesis using Cons.IH [of acc] by auto
  next
    case False
    then have "resolve_loop (p # ps) acc = resolve_loop ps (p @ ''/'' @ acc)"
      and "resolve_loop (p # ps) [] = resolve_loop ps (p @ ''/'')" by simp_all
    then show ?thesis
      using Cons.IH [of "p @ ''/'' @ acc"] Cons.IH [of "p @ ''/''"] by simp
  qed
qed

lemma resolve_loop_slash:
  "snd (resolve_loop ps []) \<Longrightarrow> \<exists>y. fst (resolve_loop ps []) = y @ ''/''"
proof (induction ps)
  case Nil
  then show ?case by simp
next
  case (Cons p ps)
  show ?case
  proof (cases "p = []")
    case True
    with Cons show ?thesis by simp
  next
    case False
    show ?thesis
    proof (cases "isAbsolute p")
      case True
      with False show ?thesis by simp
    next
      case na: False
      with False have e: "resolve_loop (p # ps) [] = resolve_loop ps (p @ ''/'')" by simp
      have "fst (resolve_loop ps (p @ ''/'')) = (fst (resolve_loop ps []) @ p) @ ''/''"
        using resolve_loop_acc [of ps "p @ ''/''"] by simp
      then show ?thesis unfolding e by blast
    qed
  qed
qed

lemma split_trailing: "split_on CHR ''/'' (y @ ''/'') = split_on CHR ''/'' y @ [[]]"
  using split_on_append [of "CHR ''/''" y "[]"] by simp

lemma normalize_trailing:
  "normalize_segs up [] (split_on CHR ''/'' (y @ ''/'')) = normalize_segs up [] (split_on CHR ''/'' y)"
  by (simp add: split_trailing normalize_segs_append)

lemma path_resolve_absolute:
  assumes "isAbsolute e"
  shows "path_resolve wd (args @ [e]) = CHR ''/'' # normalizeString e False"
proof -
  have "resolve_loop (rev (args @ [e]) @ [wd]) [] = (e @ ''/'', True)"
    using assms by (simp add: isAbsolute_def)
  then show ?thesis
    using normalize_trailing [of False e]
    by (simp add: path_resolve_def normalizeString_def)
qed

lemma path_resolve_normal:
  assumes "list_all plain segs"
  shows "path_resolve wd (args @ [abs_path segs]) = abs_path segs"
proof -
  have a: "isAbsolute (abs_path segs)" by (simp add: isAbsolute_def abs_path_def)
  have "normalize_segs False [] (split_on CHR ''/'' (abs_path segs) @ []) = normalize_segs False (rev segs) []"
    by (rule normalize_abs_path [OF assms])
  then have "normalizeString (abs_path segs) False = join_with ''/'' segs"
    by (simp add: normalizeString_def)
  then show ?thesis
    unfolding path_resolve_absolute [OF a] by (simp add: abs_path_def)
qed

lemma path_resolve_relative:
  assumes wd: "isAbsolute wd" and rel: "\<not> isAbsolute e"
  shows "path_resolve wd [rt, e] = path_resolve (path_resolve wd [rt]) [e]"
proof -
  obtain X where X: "resolve_loop [rt, wd] [] = (X, True)"
    using resolve_loop_abs [of "[rt, wd]" "[]"] wd
    by (cases "resolve_loop [rt, wd] []") auto
  then obtain y where y: "X = y @ ''/''"
    using resolve_loop_slash [of "[rt, wd]"] by auto
  let ?N = "normalize_segs False [] (split_on CHR ''/'' y)"
  have plN: "list_all plain ?N"
    by (rule normalize_segs_out_plain) (auto dest: split_on_elems)
  have R: "path_resolve wd [rt] = abs_path ?N"
    using X y normalize_trailing [of False y]
    by (simp add: path_resolve_def normalizeString_def abs_path_def)
  have absR: "isAbsolute (abs_path ?N)" "abs_path ?N \<noteq> []"
    by (simp_all add: isAbsolute_def abs_path_def)
  show ?thesis
  proof (cases "e = []")
    case True
    have l: "path_resolve wd [rt, e] = abs_path ?N"
      using X y normalize_trailing [of False y] True
      by (simp add: path_resolve_def normalizeString_def abs_path_def)
    have "resolve_loop (rev [e] @ [abs_path ?N]) [] = (abs_path ?N @ ''/'', True)"
      using True absR by simp
    moreover have "normalize_segs False [] (split_on CHR ''/'' (abs_path ?N @ ''/'')) = ?N"
      using normalize_abs_path [OF plN, of False "[]"] by (simp add: normalize_trailing)
    ultimately have "path_resolve (abs_path ?N) [e] = abs_path ?N"
      by (simp add: path_resolve_def normalizeString_def abs_path_def)
    with l R show ?thesis by simp
  next
    case False
    have "resolve_loop (rev [rt, e] @ [wd]) [] = resolve_loop [rt, wd] (e @ ''/'')"
      using False rel by simp
    also have "\<dots> = (y @ ''/'' @ e @ ''/'', True)"
      using resolve_loop_acc [of "[rt, wd]" "e @ ''/''"] X y by simp
    finally have l1: "resolve_loop (rev [rt, e] @ [wd]) [] = (y @ ''/'' @ e @ ''/'', True)" .
    have sl: "split_on CHR ''/'' (y @ CHR ''/'' # e @ ''/'')
              = split_on CHR ''/'' y @ split_on CHR ''/'' (e @ ''/'')"
      by (rule split_on_append)
    have nl: "normalize_segs False [] (split_on CHR ''/'' (y @ CHR ''/'' # e @ ''/''))
              = normalize_segs False (rev ?N) (split_on CHR ''/'' (e @ ''/''))"
      unfolding sl by (simp add: normalize_segs_append)
    have l: "path_resolve wd [rt, e]
             = abs_path (normalize_segs False (rev ?N) (split_on CHR ''/'' (e @ ''/'')))"
      unfolding path_resolve_def l1
      by (simp add: normalizeString_def abs_path_def nl)
    have r1: "resolve_loop (rev [e] @ [abs_path ?N]) [] = (abs_path ?N @ ''/'' @ e @ ''/'', True)"
      using False rel absR by simp
    have sr: "split_on CHR ''/'' (abs_path ?N @ CHR ''/'' # e @ ''/'')
              = split_on CHR ''/'' (abs_path ?N) @ split_on CHR ''/'' (e @ ''/'')"
      by (rule split_on_append)
    have nr: "normalize_segs False [] (split_on CHR ''/'' (abs_path ?N @ CHR ''/'' # e @ ''/''))
              = normalize_segs False (rev ?N) (split_on CHR ''/'' (e @ ''/''))"
      unfolding sr by (rule normalize_abs_path [OF plN])
    have "normalizeString (abs_path ?N @ ''/'' @ e @ ''/'') False
          = join_with ''/'' (normalize_segs False (rev ?N) (split_on CHR ''/'' (e @ ''/'')))"
      using nr by (simp add: normalizeString_def)
    then have "path_resolve (abs_path ?N) [e]
             = abs_path (normalize_segs False (rev ?N) (split_on CHR ''/'' (e @ ''/'')))"
      unfolding path_resolve_def r1 by (simp add: abs_path_def)
    with l R show ?thesis by simp
  qed
qed

lemma path_resolve_entry:
  assumes "isAbsolute wd"
  shows "path_resolve wd [rt, e] = resolve_entry wd rt e"
proof (cases "isAbsolute e")
  case True
  from path_resolve_absolute [OF True, of wd "[rt]"] True show ?thesis
    by (simp add: resolve_entry_def)
next
  case False
  from path_resolve_relative [OF assms False] False show ?thesis
    by (simp add: resolve_entry_def)
qed


text \<open>
  C8, as stated, fails twice. An entry that is already absolute is not left unchanged:
  \<^verbatim>\<open>path.resolve\<close> returns its normalised form, so \<^verbatim>\<open>/abs/dir/../main.js\<close> becomes
  \<^verbatim>\<open>/abs/main.js\<close>. And the single path string \<^verbatim>\<open>''\<close> is falsy: \<^verbatim>\<open>if (pluginConfig.entry)\<close>
  skips it and no list is produced, where the claim has a list of length one.
\<close>

theorem absolute_entry_is_normalised:
  "isAbsolute ''/abs/dir/../main.js''
   \<and> config_hook outDir_config
        (snd (vitePluginNette (entry_options (EntryArr [''/abs/dir/../main.js''])) example_world))
       = Inr \<lparr>out_root = ''assets'', out_base = [], out_manifest = ManifestBool True,
              out_outDir = ''/srv/out'', out_assetsDir = [],
              out_input = Some [''/abs/main.js''],
              out_cors = CorsOptions [DefaultAllowedOrigins, Origin ''http://localhost''],
              out_allowedHosts = None, out_origin = []\<rparr>
   \<and> config_hook outDir_config
        (snd (vitePluginNette (entry_options (EntryStr [])) example_world))
       = Inr \<lparr>out_root = ''assets'', out_base = [], out_manifest = ManifestBool True,
              out_outDir = ''/srv/out'', out_assetsDir = [],
              out_input = None,
              out_cors = CorsOptions [DefaultAllowedOrigins, Origin ''http://localhost''],
              out_allowedHosts = None, out_origin = []\<rparr>"
  by code_simp

text \<open>
  C8, amended. For an entry setting that is a non-empty string or a sequence of strings,
  the entry input is the sequence of the same length in the same order whose elements are
  \<^const>\<open>resolve_entry\<close> of the given ones: an element that is not absolute is resolved against
  the resolved root directory, an absolute element is returned in normalised form, which
  is the element itself when it is already normalised. When no entry is given, or the
  entry is the empty string, no list is produced.
\<close>

theorem entry_resolution:
  assumes "config_hook u w = Inr r" and "pluginConfig w = Some pc" and "isAbsolute (cwd w)"
  shows "out_input r =
           (case entry pc of
              None \<Rightarrow> None
            | Some (EntryStr e) \<Rightarrow>
                (if e = [] then None
                 else Some [resolve_entry (cwd w)
                              (case root u of None \<Rightarrow> ''assets'' | Some r \<Rightarrow> r) e])
            | Some (EntryArr es) \<Rightarrow>
                Some (map (resolve_entry (cwd w)
                             (case root u of None \<Rightarrow> ''assets'' | Some r \<Rightarrow> r)) es))
       \<and> (\<forall>segs. list_all plain segs \<longrightarrow>
             resolve_entry (cwd w) (case root u of None \<Rightarrow> ''assets'' | Some r \<Rightarrow> r)
               (abs_path segs) = abs_path segs)"
proof
  let ?rt = "case root u of None \<Rightarrow> ''assets'' | Some r \<Rightarrow> r"
  note pe = path_resolve_entry [OF assms(3)]
  have inp: "out_input r = (case entry pc of
                      None \<Rightarrow> None
                    | Some (EntryStr e) \<Rightarrow>
                        (if e = [] then None
                         else Some [path_resolve (cwd w) [?rt, e]])
                    | Some (EntryArr es) \<Rightarrow>
                        Some (map (\<lambda>e. path_resolve (cwd w) [?rt, e]) es))"
  proof (cases "case Option.bind (build u) outDir of Some d \<Rightarrow> Inr d | None \<Rightarrow> getDefaultOutDir w")
    case (Inl e)
    with assms(1) show ?thesis unfolding config_hook_eq [OF assms(2)] by simp
  next
    case (Inr d)
    with assms(1) show ?thesis unfolding config_hook_eq [OF assms(2)] by auto
  qed
  show "out_input r =
           (case entry pc of
              None \<Rightarrow> None
            | Some (EntryStr e) \<Rightarrow>
                (if e = [] then None else Some [resolve_entry (cwd w) ?rt e])
            | Some (EntryArr es) \<Rightarrow> Some (map (resolve_entry (cwd w) ?rt) es))"
  proof (cases "entry pc")
    case None
    with inp show ?thesis by simp
  next
    case (Some ev)
    show ?thesis
    proof (cases ev)
      case (EntryStr e)
      with Some inp show ?thesis by (simp add: pe)
    next
      case (EntryArr es)
      with Some inp show ?thesis by (simp add: pe)
    qed
  qed
  show "\<forall>segs. list_all plain segs \<longrightarrow> resolve_entry (cwd w) ?rt (abs_path segs) = abs_path segs"
  proof (intro allI impI)
    fix segs assume p: "list_all plain segs"
    have "resolve_entry (cwd w) ?rt (abs_path segs) = path_resolve (cwd w) ([?rt] @ [abs_path segs])"
      by (simp add: pe)
    also have "\<dots> = abs_path segs" by (rule path_resolve_normal [OF p])
    finally show "resolve_entry (cwd w) ?rt (abs_path segs) = abs_path segs" .
  qed
qed

theorem entry_resolution_witness:
  "config_hook outDir_config
        (snd (vitePluginNette (entry_options (EntryArr [''main.js'', ''/abs/x.js''])) example_world))
       = Inr \<lparr>out_root = ''assets'', out_base = [], out_manifest = ManifestBool True,
              out_outDir = ''/srv/out'', out_assetsDir = [],
              out_input = Some [''/proj/assets/main.js'', ''/abs/x.js''],
              out_cors = CorsOptions [DefaultAllowedOrigins, Origin ''http://localhost''],
              out_allowedHosts = None, out_origin = []\<rparr>
   \<and> pluginConfig (snd (vitePluginNette (entry_options (EntryArr [''main.js'', ''/abs/x.js''])) example_world))
       = Some \<lparr>infoFile = Some ''.vite/nette.json'', host = None,
               entry = Some (EntryArr [''main.js'', ''/abs/x.js''])\<rparr>
   \<and> isAbsolute (cwd (snd (vitePluginNette (entry_options (EntryArr [''main.js'', ''/abs/x.js''])) example_world)))
   \<and> list_all plain [''abs'', ''x.js'']
   \<and> map (resolve_entry ''/proj'' ''assets'') [''main.js'', ''/abs/x.js'']
       = [''/proj/assets/main.js'', ''/abs/x.js'']
   \<and> resolve_entry ''/proj'' ''assets'' (abs_path [''abs'', ''x.js'']) = abs_path [''abs'', ''x.js'']"
proof -
  let ?w = "snd (vitePluginNette (entry_options (EntryArr [''main.js'', ''/abs/x.js''])) example_world)"
  have h1: "config_hook outDir_config ?w
       = Inr \<lparr>out_root = ''assets'', out_base = [], out_manifest = ManifestBool True,
              out_outDir = ''/srv/out'', out_assetsDir = [],
              out_input = Some [''/proj/assets/main.js'', ''/abs/x.js''],
              out_cors = CorsOptions [DefaultAllowedOrigins, Origin ''http://localhost''],
              out_allowedHosts = None, out_origin = []\<rparr>"
    by code_simp
  have h2: "pluginConfig ?w
       = Some \<lparr>infoFile = Some ''.vite/nette.json'', host = None,
               entry = Some (EntryArr [''main.js'', ''/abs/x.js''])\<rparr>"
    by (simp add: vitePluginNette_def entry_options_def)
  have h3: "isAbsolute (cwd ?w)"
    by (simp add: vitePluginNette_def example_world_def isAbsolute_def)
  have h4: "list_all plain [''abs'', ''x.js'']" by (simp add: plain_def)
  have cw: "cwd ?w = ''/proj''" by (simp add: vitePluginNette_def example_world_def)
  have rt: "(case root outDir_config of None \<Rightarrow> ''assets'' | Some r \<Rightarrow> r) = ''assets''"
    by (simp add: outDir_config_def)
  note T = entry_resolution [OF h1 h2 h3]
  from T have c1: "map (resolve_entry ''/proj'' ''assets'') [''main.js'', ''/abs/x.js'']
       = [''/proj/assets/main.js'', ''/abs/x.js'']"
    unfolding cw rt by simp
  from T h4 have c2: "resolve_entry ''/proj'' ''assets'' (abs_path [''abs'', ''x.js''])
       = abs_path [''abs'', ''x.js'']"
    unfolding cw rt by blast
  from h1 h2 h3 h4 c1 c2 show ?thesis by (intro conjI)
qed

section \<open>Attaching the coordinator\<close>

lemma emit_no_listeners: "listeners w = [] \<Longrightarrow> emit srv ev w = Inr w"
  by (simp add: emit_def)

lemma server_event_no_listeners:
  assumes "listeners w = []"
  shows "\<exists>w'. server_event srv ev w = Inr w' \<and> files w' = files w \<and> heap w' = heap w
           \<and> listeners w' = [] \<and> sigint_listeners w' = sigint_listeners w"
  using assms by (cases ev) (simp_all add: emit_no_listeners)

lemma run_events_no_listeners:
  "listeners w = [] \<Longrightarrow>
   \<exists>w'. run_events srv evs w = Inr w' \<and> files w' = files w \<and> heap w' = heap w
        \<and> listeners w' = [] \<and> sigint_listeners w' = sigint_listeners w"
proof (induction evs arbitrary: w)
  case Nil
  then show ?case by simp
next
  case (Cons ev evs)
  from server_event_no_listeners [OF Cons.prems, of srv ev] obtain w1 where
    w1: "server_event srv ev w = Inr w1" "files w1 = files w" "heap w1 = heap w"
        "listeners w1 = []" "sigint_listeners w1 = sigint_listeners w"
    by blast
  from Cons.IH [OF w1(4)] obtain w2 where
    "run_events srv evs w1 = Inr w2" "files w2 = files w1" "heap w2 = heap w1"
        "listeners w2 = []" "sigint_listeners w2 = sigint_listeners w1"
    by blast
  with w1 show ?case by simp
qed

lemma generateInfoFile_Inr:
  assumes "generateInfoFile srv w = Inr w'"
  shows "\<exists>a pc f. resolvedConfig w = Some a \<and> pluginConfig w = Some pc \<and> infoFile pc = Some f
           \<and> w' = w\<lparr>listeners := listeners w
                        @ [(srv, OnListening, ListeningHandler srv
                              (path_resolve (cwd w) [rc_root (heap w a), rc_outDir (heap w a), f])),
                           (srv, OnClose, CloseHandler
                              (path_resolve (cwd w) [rc_root (heap w a), rc_outDir (heap w a), f]))],
                      sigint_listeners := sigint_listeners w @ [SigintHandler srv]\<rparr>"
proof -
  from assms obtain a where a: "resolvedConfig w = Some a"
    by (cases "resolvedConfig w") (simp_all add: generateInfoFile_def)
  from assms a obtain pc where pc: "pluginConfig w = Some pc"
    by (cases "pluginConfig w") (simp_all add: generateInfoFile_def)
  from assms a pc obtain f where f: "infoFile pc = Some f"
    by (cases "infoFile pc") (simp_all add: generateInfoFile_def)
  from assms a pc f show ?thesis
    by (simp add: generateInfoFile_def Let_def)
qed

lemma configureServer_hook_cases:
  assumes "configureServer_hook dev w = Inr w'"
  shows "(\<exists>a srv. resolvedConfig w = Some a \<and> command (heap w a) = Serve
            \<and> httpServer dev = Some srv \<and> generateInfoFile srv w = Inr w')
         \<or> (w' = w \<and> (\<exists>a. resolvedConfig w = Some a
               \<and> (command (heap w a) = Build \<or> httpServer dev = None)))"
proof -
  from assms obtain a where a: "resolvedConfig w = Some a"
    by (cases "resolvedConfig w") (simp_all add: configureServer_hook_def)
  show ?thesis
  proof (cases "httpServer dev")
    case None
    with assms a show ?thesis by (simp add: configureServer_hook_def)
  next
    case (Some srv)
    show ?thesis
    proof (cases "command (heap w a)")
      case Build
      with assms a Some show ?thesis by (simp add: configureServer_hook_def)
    next
      case Serve
      with assms a Some show ?thesis by (simp add: configureServer_hook_def)
    qed
  qed
qed

text \<open>
  C9. \<^verbatim>\<open>configureServer\<close> changes the state only when the resolved command is \<^verbatim>\<open>serve\<close>
  and the dev server has an HTTP server; then it registers the \<^verbatim>\<open>listening\<close> and
  \<^verbatim>\<open>close\<close> listeners and the \<^verbatim>\<open>SIGINT\<close> handler. Under \<^verbatim>\<open>build\<close> it changes nothing,
  and whatever events the server then emits, no file is created or removed,
  \<^verbatim>\<open>server.origin\<close> is not written and no interrupt handler is registered.
\<close>

theorem coordinator_attaches_only_when_serving:
  assumes "configureServer_hook dev w = Inr w'"
  shows "(w' \<noteq> w \<longrightarrow>
            (\<exists>a srv. resolvedConfig w = Some a \<and> command (heap w a) = Serve
                \<and> httpServer dev = Some srv))
       \<and> ((\<exists>a. resolvedConfig w = Some a \<and> command (heap w a) = Serve) \<longrightarrow>
            (\<forall>srv. httpServer dev = Some srv \<longrightarrow>
               (\<exists>p. listeners w' = listeners w
                          @ [(srv, OnListening, ListeningHandler srv p), (srv, OnClose, CloseHandler p)]
                    \<and> sigint_listeners w' = sigint_listeners w @ [SigintHandler srv])))
       \<and> ((\<exists>a. resolvedConfig w = Some a \<and> command (heap w a) = Build) \<longrightarrow>
            w' = w
            \<and> (listeners w = [] \<longrightarrow>
                 (\<forall>srv evs. \<exists>w''. run_events srv evs w' = Inr w'' \<and> files w'' = files w
                     \<and> heap w'' = heap w \<and> sigint_listeners w'' = sigint_listeners w)))"
proof (intro conjI impI)
  assume "w' \<noteq> w"
  with configureServer_hook_cases [OF assms]
  show "\<exists>a srv. resolvedConfig w = Some a \<and> command (heap w a) = Serve \<and> httpServer dev = Some srv"
    by blast
next
  assume s: "\<exists>a. resolvedConfig w = Some a \<and> command (heap w a) = Serve"
  show "\<forall>srv. httpServer dev = Some srv \<longrightarrow>
               (\<exists>p. listeners w' = listeners w
                          @ [(srv, OnListening, ListeningHandler srv p), (srv, OnClose, CloseHandler p)]
                    \<and> sigint_listeners w' = sigint_listeners w @ [SigintHandler srv])"
  proof (intro allI impI)
    fix srv assume h: "httpServer dev = Some srv"
    from configureServer_hook_cases [OF assms] s h
    have "generateInfoFile srv w = Inr w'" by auto
    from generateInfoFile_Inr [OF this] obtain a pc f where
      "w' = w\<lparr>listeners := listeners w
                        @ [(srv, OnListening, ListeningHandler srv
                              (path_resolve (cwd w) [rc_root (heap w a), rc_outDir (heap w a), f])),
                           (srv, OnClose, CloseHandler
                              (path_resolve (cwd w) [rc_root (heap w a), rc_outDir (heap w a), f]))],
                      sigint_listeners := sigint_listeners w @ [SigintHandler srv]\<rparr>"
      by blast
    then have "listeners w' = listeners w
                 @ [(srv, OnListening, ListeningHandler srv
                       (path_resolve (cwd w) [rc_root (heap w a), rc_outDir (heap w a), f])),
                    (srv, OnClose, CloseHandler
                       (path_resolve (cwd w) [rc_root (heap w a), rc_outDir (heap w a), f]))]"
      and "sigint_listeners w' = sigint_listeners w @ [SigintHandler srv]"
      by simp_all
    then show "\<exists>p. listeners w' = listeners w
                          @ [(srv, OnListening, ListeningHandler srv p), (srv, OnClose, CloseHandler p)]
                    \<and> sigint_listeners w' = sigint_listeners w @ [SigintHandler srv]"
      by blast
  qed
next
  assume b: "\<exists>a. resolvedConfig w = Some a \<and> command (heap w a) = Build"
  with configureServer_hook_cases [OF assms] show eq: "w' = w" by auto
  assume "listeners w = []"
  then show "\<forall>srv evs. \<exists>w''. run_events srv evs w' = Inr w'' \<and> files w'' = files w
                     \<and> heap w'' = heap w \<and> sigint_listeners w'' = sigint_listeners w"
    unfolding eq using run_events_no_listeners by blast
qed

theorem coordinator_attaches_only_when_serving_witness:
  "configureServer_hook \<lparr>httpServer = Some 0\<rparr> build_world = Inr build_world
   \<and> resolvedConfig build_world = Some 0 \<and> command (heap build_world 0) = Build
   \<and> listeners build_world = []
   \<and> (\<exists>w''. run_events 0 [Listening 5173, Close] build_world = Inr w''
          \<and> files w'' = files build_world \<and> heap w'' = heap build_world
          \<and> sigint_listeners w'' = sigint_listeners build_world)
   \<and> resolvedConfig serve_world = Some 0 \<and> command (heap serve_world 0) = Serve
   \<and> listeners serve_world = [] \<and> sigint_listeners serve_world = []
   \<and> (\<exists>w p. configureServer_hook \<lparr>httpServer = Some 0\<rparr> serve_world = Inr w
          \<and> listeners w = [(0, OnListening, ListeningHandler 0 p), (0, OnClose, CloseHandler p)]
          \<and> sigint_listeners w = [SigintHandler 0])
   \<and> configureServer_hook \<lparr>httpServer = None\<rparr> serve_world = Inr serve_world"
proof -
  have h1: "configureServer_hook \<lparr>httpServer = Some 0\<rparr> build_world = Inr build_world"
    by (simp add: configureServer_hook_def build_world_def configResolved_hook_def
          vitePluginNette_def example_world_def example_config_def)
  have h2: "resolvedConfig build_world = Some 0"
    by (simp add: build_world_def configResolved_hook_def)
  have h3: "command (heap build_world 0) = Build"
    by (simp add: build_world_def configResolved_hook_def vitePluginNette_def
          example_world_def example_config_def)
  have h4: "listeners build_world = []"
    by (simp add: build_world_def configResolved_hook_def vitePluginNette_def example_world_def)
  from coordinator_attaches_only_when_serving [OF h1] h2 h3 h4
  have "\<forall>srv evs. \<exists>w''. run_events srv evs build_world = Inr w'' \<and> files w'' = files build_world
          \<and> heap w'' = heap build_world \<and> sigint_listeners w'' = sigint_listeners build_world"
    by blast
  then have c1: "\<exists>w''. run_events 0 [Listening 5173, Close] build_world = Inr w''
          \<and> files w'' = files build_world \<and> heap w'' = heap build_world
          \<and> sigint_listeners w'' = sigint_listeners build_world"
    by blast
  have s2: "resolvedConfig serve_world = Some 0"
    by (simp add: serve_world_def configResolved_hook_def)
  have s3: "command (heap serve_world 0) = Serve"
    by (simp add: serve_world_def configResolved_hook_def vitePluginNette_def
          example_world_def example_config_def)
  have s4: "listeners serve_world = []" "sigint_listeners serve_world = []"
    by (simp_all add: serve_world_def configResolved_hook_def vitePluginNette_def example_world_def)
  obtain w where s1: "configureServer_hook \<lparr>httpServer = Some 0\<rparr> serve_world = Inr w"
    by (simp add: configureServer_hook_def generateInfoFile_def Let_def serve_world_def
          configResolved_hook_def vitePluginNette_def example_world_def example_config_def)
  from coordinator_attaches_only_when_serving [OF s1] s2 s3
  have "\<exists>p. listeners w = listeners serve_world
                  @ [(0, OnListening, ListeningHandler 0 p), (0, OnClose, CloseHandler p)]
            \<and> sigint_listeners w = sigint_listeners serve_world @ [SigintHandler 0]"
    by simp
  with s1 s4 have c2: "\<exists>w p. configureServer_hook \<lparr>httpServer = Some 0\<rparr> serve_world = Inr w
          \<and> listeners w = [(0, OnListening, ListeningHandler 0 p), (0, OnClose, CloseHandler p)]
          \<and> sigint_listeners w = [SigintHandler 0]"
    by auto
  have c3: "configureServer_hook \<lparr>httpServer = None\<rparr> serve_world = Inr serve_world"
    by (simp add: configureServer_hook_def s2)
  from h1 h2 h3 h4 c1 s2 s3 s4 c2 c3 show ?thesis by (intro conjI)
qed

section \<open>The listener lifecycle\<close>





























section \<open>The module's variables\<close>

lemma vitePluginNette_eq:
  assumes "vitePluginNette c w = (p, w')"
  shows "config p = config_hook" and "configResolved p = configResolved_hook"
    and "configureServer p = configureServer_hook"
    and "w' = w\<lparr>pluginConfig :=
           Some \<lparr>infoFile = Some (case infoFile c of None \<Rightarrow> ''.vite/nette.json'' | Some f \<Rightarrow> f),
                 host = host c, entry = entry c\<rparr>\<rparr>"
  using assms by (auto simp: vitePluginNette_def)

text \<open>
  C10. \<^verbatim>\<open>pluginConfig\<close> and \<^verbatim>\<open>resolvedConfig\<close> are variables of the module, shared by all
  plugin instances. After a second call of the factory the stored plugin configuration is
  the second call's, whatever the first call stored. The hooks of the first instance read
  it: its \<^verbatim>\<open>config\<close> hook builds the CORS origin from the second instance's \<^verbatim>\<open>host\<close> and the
  entry list from the second instance's \<^verbatim>\<open>entry\<close>; \<^verbatim>\<open>configResolved\<close> of the second
  instance stores the reference that the first instance's \<^verbatim>\<open>configureServer\<close> reads, and
  that hook attaches the coordinator at the path built from the second instance's
  \<^verbatim>\<open>infoFile\<close>.
\<close>

theorem hooks_read_module_variables:
  assumes first: "vitePluginNette c1 w = (p1, w1)"
    and second: "vitePluginNette c2 w1 = (p2, w2)"
  shows "pluginConfig w2
         = Some \<lparr>infoFile = Some (case infoFile c2 of None \<Rightarrow> ''.vite/nette.json'' | Some f \<Rightarrow> f),
                 host = host c2, entry = entry c2\<rparr>
     \<and> (Option.bind (build u) outDir = Some d \<longrightarrow>
          (\<exists>r. config p1 u w2 = Inr r
             \<and> out_cors r =
                 (case Option.bind (server u) cors of
                    Some c \<Rightarrow> c
                  | None \<Rightarrow> CorsOptions [DefaultAllowedOrigins,
                      Origin ((if (case server u of None \<Rightarrow> False | Some s \<Rightarrow> https s)
                               then ''https'' else ''http'')
                        @ ''://'' @ advertised_host (host c2)
                            (case server u of None \<Rightarrow> HostUndefined | Some s \<Rightarrow> server_host s))])
             \<and> out_input r =
                 (case entry c2 of
                    None \<Rightarrow> None
                  | Some (EntryStr e) \<Rightarrow>
                      (if e = [] then None
                       else Some [path_resolve (cwd w)
                              [(case root u of None \<Rightarrow> ''assets'' | Some r \<Rightarrow> r), e]])
                  | Some (EntryArr es) \<Rightarrow>
                      Some (map (\<lambda>e. path_resolve (cwd w)
                              [(case root u of None \<Rightarrow> ''assets'' | Some r \<Rightarrow> r), e]) es))))
     \<and> resolvedConfig (configResolved p2 a w2) = Some a
     \<and> pluginConfig (configResolved p2 a w2) = pluginConfig w2
     \<and> (command (heap w a) = Serve \<longrightarrow>
          configureServer p1 \<lparr>httpServer = Some srv\<rparr> (configResolved p2 a w2)
          = Inr ((configResolved p2 a w2)
                  \<lparr>listeners := listeners w
                     @ [(srv, OnListening, ListeningHandler srv
                           (path_resolve (cwd w) [rc_root (heap w a), rc_outDir (heap w a),
                              (case infoFile c2 of None \<Rightarrow> ''.vite/nette.json'' | Some f \<Rightarrow> f)])),
                        (srv, OnClose, CloseHandler
                           (path_resolve (cwd w) [rc_root (heap w a), rc_outDir (heap w a),
                              (case infoFile c2 of None \<Rightarrow> ''.vite/nette.json'' | Some f \<Rightarrow> f)]))],
                   sigint_listeners := sigint_listeners w @ [SigintHandler srv]\<rparr>))"
proof -
  note f = vitePluginNette_eq [OF first]
  note s = vitePluginNette_eq [OF second]
  let ?pc = "\<lparr>infoFile = Some (case infoFile c2 of None \<Rightarrow> ''.vite/nette.json'' | Some f \<Rightarrow> f),
                 host = host c2, entry = entry c2\<rparr>"
  have pc: "pluginConfig w2 = Some ?pc" by (simp add: s(4))
  have cw: "cwd w2 = cwd w" by (simp add: s(4) f(4))
  have 2: "\<exists>r. config p1 u w2 = Inr r
             \<and> out_cors r =
                 (case Option.bind (server u) cors of
                    Some c \<Rightarrow> c
                  | None \<Rightarrow> CorsOptions [DefaultAllowedOrigins,
                      Origin ((if (case server u of None \<Rightarrow> False | Some s \<Rightarrow> https s)
                               then ''https'' else ''http'')
                        @ ''://'' @ advertised_host (host c2)
                            (case server u of None \<Rightarrow> HostUndefined | Some s \<Rightarrow> server_host s))])
             \<and> out_input r =
                 (case entry c2 of
                    None \<Rightarrow> None
                  | Some (EntryStr e) \<Rightarrow>
                      (if e = [] then None
                       else Some [path_resolve (cwd w)
                              [(case root u of None \<Rightarrow> ''assets'' | Some r \<Rightarrow> r), e]])
                  | Some (EntryArr es) \<Rightarrow>
                      Some (map (\<lambda>e. path_resolve (cwd w)
                              [(case root u of None \<Rightarrow> ''assets'' | Some r \<Rightarrow> r), e]) es))"
    if od: "Option.bind (build u) outDir = Some d"
  proof -
    obtain pc' where pc': "pluginConfig w2 = Some pc'" "host pc' = host c2" "entry pc' = entry c2"
      using pc by simp
    show ?thesis
      unfolding f(1) config_hook_eq [OF pc'(1)] od cw pc'(2) pc'(3) by simp
  qed
  have 3: "resolvedConfig (configResolved p2 a w2) = Some a"
    by (simp add: s(2) configResolved_hook_def)
  have 4: "pluginConfig (configResolved p2 a w2) = pluginConfig w2"
    by (simp add: s(2) configResolved_hook_def)
  have 5: "configureServer p1 \<lparr>httpServer = Some srv\<rparr> (configResolved p2 a w2)
          = Inr ((configResolved p2 a w2)
                  \<lparr>listeners := listeners w
                     @ [(srv, OnListening, ListeningHandler srv
                           (path_resolve (cwd w) [rc_root (heap w a), rc_outDir (heap w a),
                              (case infoFile c2 of None \<Rightarrow> ''.vite/nette.json'' | Some f \<Rightarrow> f)])),
                        (srv, OnClose, CloseHandler
                           (path_resolve (cwd w) [rc_root (heap w a), rc_outDir (heap w a),
                              (case infoFile c2 of None \<Rightarrow> ''.vite/nette.json'' | Some f \<Rightarrow> f)]))],
                   sigint_listeners := sigint_listeners w @ [SigintHandler srv]\<rparr>)"
    if "command (heap w a) = Serve"
    using that
    by (simp add: f(3) s(2) s(4) f(4) configResolved_hook_def configureServer_hook_def
          generateInfoFile_def Let_def)
  from pc 2 3 4 5 show ?thesis by blast
qed

theorem hooks_read_module_variables_witness:
  "vitePluginNette docker_options example_world = (fst first_instance, snd first_instance)
   \<and> vitePluginNette second_options (snd first_instance)
       = (fst second_instance, snd second_instance)
   \<and> Option.bind (build outDir_config) outDir = Some ''/srv/out''
   \<and> command (heap example_world 0) = Serve
   \<and> (\<exists>r. config (fst first_instance) outDir_config (snd second_instance) = Inr r
          \<and> out_cors r = CorsOptions [DefaultAllowedOrigins, Origin ''http://second.test''])
   \<and> (\<exists>w3. configureServer (fst first_instance) \<lparr>httpServer = Some 0\<rparr>
               (configResolved (fst second_instance) 0 (snd second_instance)) = Inr w3
          \<and> listeners w3
             = [(0, OnListening, ListeningHandler 0 ''/proj/www/assets/second.json''),
                (0, OnClose, CloseHandler ''/proj/www/assets/second.json'')])"
proof -
  have h1: "vitePluginNette docker_options example_world = (fst first_instance, snd first_instance)"
    by (simp add: first_instance_def)
  have h2: "vitePluginNette second_options (snd first_instance)
       = (fst second_instance, snd second_instance)"
    by (simp add: second_instance_def)
  have h3: "Option.bind (build outDir_config) outDir = Some ''/srv/out''"
    by (simp add: outDir_config_def)
  have h4: "command (heap example_world 0) = Serve"
    by (simp add: example_world_def example_config_def)
  note T = hooks_read_module_variables [OF h1 h2, of outDir_config "''/srv/out''" 0 0]
  have e1: "(case Option.bind (server outDir_config) cors of
                    Some c \<Rightarrow> c
                  | None \<Rightarrow> CorsOptions [DefaultAllowedOrigins,
                      Origin ((if (case server outDir_config of None \<Rightarrow> False | Some s \<Rightarrow> https s)
                               then ''https'' else ''http'')
                        @ ''://'' @ advertised_host (host second_options)
                            (case server outDir_config of None \<Rightarrow> HostUndefined | Some s \<Rightarrow> server_host s))])
            = CorsOptions [DefaultAllowedOrigins, Origin ''http://second.test'']"
    by code_simp
  have e2: "path_resolve (cwd example_world)
              [rc_root (heap example_world 0), rc_outDir (heap example_world 0),
               (case infoFile second_options of None \<Rightarrow> ''.vite/nette.json'' | Some f \<Rightarrow> f)]
            = ''/proj/www/assets/second.json''"
    by code_simp
  have e3: "listeners example_world = []" by (simp add: example_world_def)
  from T h3 have c: "\<exists>r. config (fst first_instance) outDir_config (snd second_instance) = Inr r
          \<and> out_cors r = CorsOptions [DefaultAllowedOrigins, Origin ''http://second.test'']"
    unfolding e1 by blast
  from T h4 have "configureServer (fst first_instance) \<lparr>httpServer = Some 0\<rparr>
               (configResolved (fst second_instance) 0 (snd second_instance))
       = Inr ((configResolved (fst second_instance) 0 (snd second_instance))
                  \<lparr>listeners := listeners example_world
                     @ [(0, OnListening, ListeningHandler 0 ''/proj/www/assets/second.json''),
                        (0, OnClose, CloseHandler ''/proj/www/assets/second.json'')],
                   sigint_listeners := sigint_listeners example_world @ [SigintHandler 0]\<rparr>)"
    unfolding e2 by blast
  then have s: "\<exists>w3. configureServer (fst first_instance) \<lparr>httpServer = Some 0\<rparr>
               (configResolved (fst second_instance) 0 (snd second_instance)) = Inr w3
          \<and> listeners w3
             = [(0, OnListening, ListeningHandler 0 ''/proj/www/assets/second.json''),
                (0, OnClose, CloseHandler ''/proj/www/assets/second.json'')]"
    by (simp add: e3)
  from h1 h2 h3 h4 c s show ?thesis by (intro conjI)
qed

end
